theory Spec2Isabelle
  imports Complex_Main "HOL-Library.AList" "HOL-Library.Multiset"
begin

section \<open>Traffic severity prediction: the prediction engine\<close>

text \<open>
  The engine of \<^verbatim>\<open>model_loader.py\<close>. The two pickled artifacts live in files; a file
  is missing, or opening or unpickling it raises (the message of the exception is kept),
  or it yields the stored object. Everything the functions show with \<^verbatim>\<open>st.error\<close> is
  returned as a list of messages next to the value, in the order it is shown.
  Numbers are reals: the comparisons of the rule policy are exact on them.
\<close>

datatype 'a artifact = Missing | Corrupt string | Stored 'a

text \<open>
  A scaler is what its \<^verbatim>\<open>transform\<close> does to a feature row, a model what its
  \<^verbatim>\<open>predict(...)[0]\<close> answers on a scaled row; either may raise (\<open>Inl\<close> the message
  of the exception).
\<close>

datatype scaler = Scaler (transform: "real list \<Rightarrow> string + real list")

datatype model = Model (predict: "real list \<Rightarrow> string + real")

record storage =
  model_file :: "model artifact"
  scaler_file :: "scaler artifact"

text \<open>
  \<^verbatim>\<open>StandardScaler()\<close>: a scaler that was never fitted. scikit-learn's \<^verbatim>\<open>transform\<close>
  checks that the estimator is fitted first and raises \<^verbatim>\<open>NotFittedError\<close> otherwise.
\<close>

definition StandardScaler :: scaler where
  "StandardScaler = Scaler (\<lambda>row. Inl ''This StandardScaler instance is not fitted yet.'')"

definition load_model :: "storage \<Rightarrow> model option \<times> string list" where
  "load_model st =
     (case model_file st of
        Missing \<Rightarrow> (None, [])
      | Stored m \<Rightarrow> (Some m, [])
      | Corrupt e \<Rightarrow> (None, [''Error loading model: '' @ e]))"

definition load_scaler :: "storage \<Rightarrow> scaler \<times> string list" where
  "load_scaler st =
     (case scaler_file st of
        Missing \<Rightarrow> (StandardScaler, [])
      | Stored s \<Rightarrow> (s, [])
      | Corrupt e \<Rightarrow> (StandardScaler, [''Error loading scaler: '' @ e]))"

text \<open>Python's \<^verbatim>\<open>features[i]\<close> for a non-negative index: IndexError out of range.\<close>

definition item :: "real list \<Rightarrow> nat \<Rightarrow> string + real" where
  "item xs i = (if i < length xs then Inr (xs ! i) else Inl ''list index out of range'')"

text \<open>Python's \<^verbatim>\<open>int(x)\<close> on a number: truncation towards zero.\<close>

definition py_int :: "real \<Rightarrow> int" where
  "py_int x = (if 0 \<le> x then \<lfloor>x\<rfloor> else \<lceil>x\<rceil>)"

definition prediction_failed :: "string list \<Rightarrow> string \<Rightarrow> int option \<times> string list" where
  "prediction_failed out e = (None, out @ [''Error making prediction: '' @ e])"

definition predict_severity :: "storage \<Rightarrow> real list \<Rightarrow> int option \<times> string list" where
  "predict_severity st features =
     (let (model, out1) = load_model st;
          (scaler, out2) = load_scaler st;
          out = out1 @ out2
      in (case model of
            None \<Rightarrow>
              (case item features 6 of
                 Inl e \<Rightarrow> prediction_failed out e
               | Inr hour \<Rightarrow>
                  (case item features 2 of
                     Inl e \<Rightarrow> prediction_failed out e
                   | Inr distance \<Rightarrow>
                      (case item features 7 of
                         Inl e \<Rightarrow> prediction_failed out e
                       | Inr duration \<Rightarrow>
                          (if hour \<in> set [7, 8, 9, 16, 17, 18] \<and> distance < 10 then
                             (if duration > 60 then (Some 3, out)
                              else if duration > 30 then (Some 2, out)
                              else (Some 1, out))
                           else if distance > 30 \<or> duration < 15 then (Some 0, out)
                           else (Some 1, out)))))
          | Some m \<Rightarrow>
              (case transform scaler features of
                 Inl e \<Rightarrow> prediction_failed out e
               | Inr normalized_features \<Rightarrow>
                  (case predict m normalized_features of
                     Inl e \<Rightarrow> prediction_failed out e
                   | Inr prediction \<Rightarrow> (Some (py_int prediction), out)))))"

section \<open>Severity classes\<close>

text \<open>
  Python dictionaries are association lists in insertion order; \<^verbatim>\<open>d.get(k, default)\<close>
  is \<open>dict_get\<close>, and \<^verbatim>\<open>d[k] = v\<close> is \<open>AList.update\<close> (an existing key keeps its
  place, a new one goes to the end).
\<close>

definition dict_get :: "('k \<times> 'v) list \<Rightarrow> 'k \<Rightarrow> 'v \<Rightarrow> 'v" where
  "dict_get d k dflt = (case map_of d k of None \<Rightarrow> dflt | Some v \<Rightarrow> v)"

definition SEVERITY_CLASSES :: "(int \<times> (string \<times> string) list) list" where
  "SEVERITY_CLASSES =
     [(0, [(''label'', ''Minimal''), (''color'', ''#4CAF50''),
           (''description'', ''Minimal impact on traffic flow'')]),
      (1, [(''label'', ''Minor''), (''color'', ''#FFC107''),
           (''description'', ''Minor delays and slowdowns'')]),
      (2, [(''label'', ''Moderate''), (''color'', ''#FF9800''),
           (''description'', ''Moderate congestion affecting travel time'')]),
      (3, [(''label'', ''Severe''), (''color'', ''#F44336''),
           (''description'', ''Severe congestion with significant delays'')])]"

definition get_severity_color :: "int \<Rightarrow> string" where
  "get_severity_color severity_class =
     dict_get (dict_get SEVERITY_CLASSES severity_class []) ''color'' ''#CCCCCC''"

definition get_severity_label :: "int \<Rightarrow> string" where
  "get_severity_label severity_class =
     dict_get (dict_get SEVERITY_CLASSES severity_class []) ''label'' ''Unknown''"

section \<open>Prediction records and the history store\<close>

datatype pyval = PInt int | PFloat real | PStr string | PNaN

type_synonym pydict = "(string \<times> pyval) list"

text \<open>The record that \<^verbatim>\<open>show_prediction_form\<close> builds after a successful prediction.\<close>

definition severity_info :: "int \<Rightarrow> (string \<times> string) list" where
  "severity_info severity_class =
     dict_get SEVERITY_CLASSES severity_class
       [(''label'', ''Unknown''), (''color'', ''#CCCCCC''),
        (''description'', ''Unable to determine severity'')]"

definition prediction_data ::
  "real \<Rightarrow> real \<Rightarrow> real \<Rightarrow> real \<Rightarrow> real \<Rightarrow> real \<Rightarrow> int \<Rightarrow> real \<Rightarrow> int \<Rightarrow> pydict" where
  "prediction_data longitude latitude distance temperature humidity pressure hour
       time_duration severity_class =
     [(''longitude'', PFloat longitude),
      (''latitude'', PFloat latitude),
      (''distance'', PFloat distance),
      (''temperature'', PFloat temperature),
      (''humidity'', PFloat humidity),
      (''pressure'', PFloat pressure),
      (''hour'', PInt hour),
      (''time_duration'', PFloat time_duration),
      (''severity_class'', PInt severity_class),
      (''severity_label'', PStr (dict_get (severity_info severity_class) ''label'' []))]"

text \<open>
  The session state holds the history under the key \<^verbatim>\<open>predictions\<close>: \<open>None\<close> while the
  key is not set. \<open>now\<close> is the formatted clock reading of the call.
\<close>

type_synonym session_state = "pydict list option"

definition save_prediction :: "string \<Rightarrow> pydict \<Rightarrow> session_state \<Rightarrow> session_state" where
  "save_prediction now data state =
     (let predictions = (case state of None \<Rightarrow> [] | Some ps \<Rightarrow> ps);
          data' = AList.update ''timestamp'' (PStr now) data;
          predictions' = predictions @ [data']
      in if length predictions' > 50 then Some (tl predictions') else Some predictions')"

text \<open>Saving a sequence of records, each with the clock reading of its call.\<close>

definition save_all :: "(string \<times> pydict) list \<Rightarrow> session_state \<Rightarrow> session_state" where
  "save_all calls state = fold (\<lambda>(now, data). save_prediction now data) calls state"

section \<open>Data frames\<close>

text \<open>
  A pandas data frame built from a list of dictionaries: the columns are the keys in the
  order of their first appearance, a row holds \<^verbatim>\<open>NaN\<close> where its dictionary has no
  such key.
\<close>

record dataframe =
  columns :: "string list"
  rows :: "pydict list"

definition add_keys :: "string list \<Rightarrow> pydict \<Rightarrow> string list" where
  "add_keys cols d = cols @ filter (\<lambda>k. k \<notin> set cols) (map fst d)"

definition DataFrame :: "pydict list \<Rightarrow> dataframe" where
  "DataFrame ps = \<lparr>columns = foldl add_keys [] ps, rows = ps\<rparr>"

definition df_empty :: "dataframe \<Rightarrow> bool" where
  "df_empty df \<longleftrightarrow> columns df = [] \<or> rows df = []"

datatype py_error = AttributeError | KeyError

definition column :: "dataframe \<Rightarrow> string \<Rightarrow> py_error + pyval list" where
  "column df name =
     (if name \<in> set (columns df) then Inr (map (\<lambda>r. dict_get r name PNaN) (rows df))
      else Inl KeyError)"

definition get_predictions_dataframe ::
  "session_state \<Rightarrow> (py_error + dataframe option) \<times> session_state" where
  "get_predictions_dataframe state =
     (case state of
        None \<Rightarrow> (Inl AttributeError, state)
      | Some ps \<Rightarrow> if ps = [] then (Inr None, state) else (Inr (Some (DataFrame ps)), state))"

section \<open>Feature correlations\<close>

text \<open>
  \<^verbatim>\<open>Series.corr\<close> (Pearson's coefficient, computed by pandas in floating point) is a
  parameter \<open>corr\<close>; its \<^verbatim>\<open>NaN\<close> is \<open>None\<close>, and so is the absolute value of it.
  \<^verbatim>\<open>sort_values(ascending=False)\<close> puts the larger values first and \<^verbatim>\<open>NaN\<close> last.
  The returned figure is given by the rows of \<^verbatim>\<open>corr_df\<close> it is drawn from.
\<close>

definition params :: "string list" where
  "params = [''longitude'', ''latitude'', ''distance'', ''temperature'',
             ''humidity'', ''pressure'', ''hour'', ''time_duration'']"

fun corr_loop ::
  "(pyval list \<Rightarrow> pyval list \<Rightarrow> real option) \<Rightarrow> dataframe \<Rightarrow> string list \<Rightarrow>
   py_error + (string \<times> real option) list" where
  "corr_loop corr df [] = Inr []"
| "corr_loop corr df (param # rest) =
     (if param \<in> set (columns df) then
        (case column df param of
           Inl e \<Rightarrow> Inl e
         | Inr xs \<Rightarrow>
            (case column df ''severity_class'' of
               Inl e \<Rightarrow> Inl e
             | Inr ys \<Rightarrow>
                (case corr_loop corr df rest of
                   Inl e \<Rightarrow> Inl e
                 | Inr corr_data \<Rightarrow> Inr ((param, map_option abs (corr xs ys)) # corr_data))))
      else corr_loop corr df rest)"

fun before :: "real option \<Rightarrow> real option \<Rightarrow> bool" where
  "before (Some x) (Some y) \<longleftrightarrow> x \<ge> y"
| "before (Some x) None \<longleftrightarrow> True"
| "before None (Some y) \<longleftrightarrow> False"
| "before None None \<longleftrightarrow> True"

fun insert_desc :: "string \<times> real option \<Rightarrow> (string \<times> real option) list \<Rightarrow>
    (string \<times> real option) list" where
  "insert_desc x [] = [x]"
| "insert_desc x (y # ys) =
     (if before (snd x) (snd y) then x # y # ys else y # insert_desc x ys)"

definition sort_values :: "(string \<times> real option) list \<Rightarrow> (string \<times> real option) list" where
  "sort_values xs = foldr insert_desc xs []"

definition plot_parameter_importance ::
  "(pyval list \<Rightarrow> pyval list \<Rightarrow> real option) \<Rightarrow> dataframe option \<Rightarrow>
   py_error + (string \<times> real option) list option" where
  "plot_parameter_importance corr df =
     (case df of
        None \<Rightarrow> Inr None
      | Some d \<Rightarrow>
          if df_empty d \<or> length (rows d) < 5 then Inr None
          else (case corr_loop corr d params of
                  Inl e \<Rightarrow> Inl e
                | Inr corr_data \<Rightarrow>
                    if corr_data = [] then Inl KeyError
                    else Inr (Some (sort_values corr_data))))"

section \<open>CSV export\<close>

text \<open>
  \<^verbatim>\<open>to_csv(index=False)\<close> writes the header and one row per record, the cells separated
  by commas and each row ended by a line feed. A text cell is quoted when it holds a
  comma, a quote or a line break; how pandas prints a number is the parameter \<open>fmt\<close>.
  Base64 is the parameter \<open>b64\<close>.
\<close>

definition csv_field :: "string \<Rightarrow> string" where
  "csv_field s =
     (if \<exists>c \<in> set s. c \<in> {CHR '','', CHR 0x22, CHR 0x0A, CHR 0x0D}
      then [CHR 0x22] @ concat (map (\<lambda>c. if c = CHR 0x22 then [c, c] else [c]) s) @ [CHR 0x22]
      else s)"

definition cell :: "(pyval \<Rightarrow> string) \<Rightarrow> pyval \<Rightarrow> string" where
  "cell fmt v = (case v of PStr s \<Rightarrow> csv_field s | PNaN \<Rightarrow> [] | _ \<Rightarrow> fmt v)"

fun join :: "string \<Rightarrow> string list \<Rightarrow> string" where
  "join sep [] = []"
| "join sep [x] = x"
| "join sep (x # y # ys) = x @ sep @ join sep (y # ys)"

definition to_csv_lines :: "(pyval \<Rightarrow> string) \<Rightarrow> dataframe \<Rightarrow> string list" where
  "to_csv_lines fmt df =
     join '','' (map csv_field (columns df)) #
     map (\<lambda>r. join '','' (map (\<lambda>c. cell fmt (dict_get r c PNaN)) (columns df))) (rows df)"

definition to_csv :: "(pyval \<Rightarrow> string) \<Rightarrow> dataframe \<Rightarrow> string" where
  "to_csv fmt df = concat (map (\<lambda>l. l @ [CHR 0x0A]) (to_csv_lines fmt df))"

definition generate_download_link ::
  "(string \<Rightarrow> string) \<Rightarrow> (pyval \<Rightarrow> string) \<Rightarrow> dataframe option \<Rightarrow> string \<Rightarrow> string \<Rightarrow>
   string option" where
  "generate_download_link b64 fmt df filename button_text =
     (case df of
        None \<Rightarrow> None
      | Some d \<Rightarrow>
          if df_empty d then None
          else (let csv = to_csv fmt d;
                    b64s = b64 csv
                in Some (''<a href='' @ [CHR 0x22] @ ''data:file/csv;base64,'' @ b64s @
                         [CHR 0x22] @ '' download='' @ [CHR 0x22] @ filename @ [CHR 0x22] @
                         '' class='' @ [CHR 0x22] @ ''download-button'' @ [CHR 0x22] @ ''>'' @
                         button_text @ ''</a>'')))"

section \<open>The rule policy in the words of the specification\<close>

text \<open>
  The fallback rule policy as the specification states it, on the fields hour, distance
  and \<^verbatim>\<open>time_duration\<close>; \<open>predict_severity\<close> above is compared with it.
\<close>

definition spec_fallback_policy :: "real \<Rightarrow> real \<Rightarrow> real \<Rightarrow> int" where
  "spec_fallback_policy hour distance time_duration =
     (if hour \<in> {7, 8, 9, 16, 17, 18} \<and> distance < 10 then
        (if time_duration > 60 then 3 else if time_duration > 30 then 2 else 1)
      else if distance > 30 \<or> time_duration < 15 then 0
      else 1)"

section \<open>Properties of the prediction engine\<close>

lemma predict_severity_without_model:
  assumes "fst (load_model st) = None" and "length features = 8"
  shows "predict_severity st features =
           (Some (spec_fallback_policy (features ! 6) (features ! 2) (features ! 7)),
            snd (load_model st) @ snd (load_scaler st))"
  using assms
  by (cases "load_model st"; cases "load_scaler st")
     (simp add: predict_severity_def item_def spec_fallback_policy_def)

lemma load_model_None_iff:
  "fst (load_model st) = None \<longleftrightarrow> (\<forall>m. model_file st \<noteq> Stored m)"
  by (cases "model_file st") (simp_all add: load_model_def)

text \<open>
  Claim C1. When \<open>load_model\<close> yields no model, \<open>predict_severity\<close> on a list of eight
  features returns the class of the rule policy, evaluated in its order of precedence:
  in a rush hour (7, 8, 9, 16, 17, 18) with distance below 10 the class is 3 for a
  duration above 60, else 2 for a duration above 30, else 1; otherwise it is 0 when the
  distance is above 30 or the duration below 15, and 1 in every other case.
\<close>

theorem predict_severity_fallback_policy:
  assumes "fst (load_model st) = None" and "length features = 8"
  shows "fst (predict_severity st features) =
           Some (if features ! 6 \<in> {7, 8, 9, 16, 17, 18} \<and> features ! 2 < 10 then
                   (if features ! 7 > 60 then 3 else if features ! 7 > 30 then 2 else 1)
                 else if features ! 2 > 30 \<or> features ! 7 < 15 then 0 else 1)"
  using predict_severity_without_model [OF assms] by (simp add: spec_fallback_policy_def)

theorem predict_severity_fallback_policy_witness:
  "fst (load_model \<lparr>model_file = Missing, scaler_file = Missing\<rparr>) = None \<and>
   length [-73.9857, 40.7484, 5, 25, 65, 1013, 8, 75 :: real] = 8 \<and>
   fst (predict_severity \<lparr>model_file = Missing, scaler_file = Missing\<rparr>
          [-73.9857, 40.7484, 5, 25, 65, 1013, 8, 75]) = Some 3"
  using predict_severity_fallback_policy [of "\<lparr>model_file = Missing, scaler_file = Missing\<rparr>"
      "[-73.9857, 40.7484, 5, 25, 65, 1013, 8, 75]"]
  by (simp add: load_model_def)

text \<open>
  Claim C9. Without a model the result is a class in 0..3 for every list of eight
  features, and two lists that agree on hour (index 6), distance (index 2) and
  \<^verbatim>\<open>time_duration\<close> (index 7) get the same class, whatever their longitude, latitude,
  temperature, humidity and pressure are.
\<close>

theorem fallback_depends_on_three_fields:
  assumes "fst (load_model st) = None"
    and "length f = 8" and "length g = 8"
    and "f ! 6 = g ! 6" and "f ! 2 = g ! 2" and "f ! 7 = g ! 7"
  shows "fst (predict_severity st f) = fst (predict_severity st g) \<and>
         (\<exists>c. fst (predict_severity st f) = Some c \<and> c \<in> {0, 1, 2, 3})"
  using assms by (simp add: predict_severity_without_model spec_fallback_policy_def)

theorem fallback_depends_on_three_fields_witness:
  "fst (load_model \<lparr>model_file = Missing, scaler_file = Missing\<rparr>) = None \<and>
   length [-73.9857, 40.7484, 5, 25, 65, 1013, 8, 75 :: real] = 8 \<and>
   length [12, -33, 5, -4, 10, 990, 8, 75 :: real] = 8 \<and>
   fst (predict_severity \<lparr>model_file = Missing, scaler_file = Missing\<rparr>
          [-73.9857, 40.7484, 5, 25, 65, 1013, 8, 75]) =
   fst (predict_severity \<lparr>model_file = Missing, scaler_file = Missing\<rparr>
          [12, -33, 5, -4, 10, 990, 8, 75])"
  using fallback_depends_on_three_fields
      [of "\<lparr>model_file = Missing, scaler_file = Missing\<rparr>"
          "[-73.9857, 40.7484, 5, 25, 65, 1013, 8, 75]" "[12, -33, 5, -4, 10, 990, 8, 75]"]
  by (simp add: load_model_def)

text \<open>
  Claim C2, as stated: a classifier file that fails to unpickle makes
  \<open>predict_severity\<close> return the failure value and no class of the rule policy.
  It does not hold: \<open>load_model\<close> catches the exception and returns no model, so the
  rule policy answers. Here the file is corrupt and the result is class 3.
\<close>

theorem corrupt_model_is_not_a_failure:
  "fst (predict_severity \<lparr>model_file = Corrupt ''invalid load key'', scaler_file = Missing\<rparr>
          [-73.9857, 40.7484, 5, 25, 65, 1013, 8, 75]) = Some 3"
  by (simp add: predict_severity_def load_model_def load_scaler_def item_def)

text \<open>
  Claim C2, amended. When the classifier file exists but fails to unpickle, the loader
  shows the message \<^verbatim>\<open>Error loading model: ...\<close> and yields no model;
  \<open>predict_severity\<close> then returns the class of the fallback rule policy for every list
  of eight features, after that message and those of the scaler's loader.
\<close>

theorem corrupt_model_falls_back:
  assumes "model_file st = Corrupt e" and "length features = 8"
  shows "predict_severity st features =
           (Some (spec_fallback_policy (features ! 6) (features ! 2) (features ! 7)),
            (''Error loading model: '' @ e) # snd (load_scaler st))"
proof -
  from assms(1) have "load_model st = (None, [''Error loading model: '' @ e])"
    by (simp add: load_model_def)
  with predict_severity_without_model [of st features] assms(2) show ?thesis
    by simp
qed

theorem corrupt_model_falls_back_witness:
  "predict_severity \<lparr>model_file = Corrupt ''invalid load key'', scaler_file = Missing\<rparr>
          [-73.9857, 40.7484, 5, 25, 65, 1013, 8, 75] =
     (Some 3, [''Error loading model: invalid load key''])"
  using corrupt_model_falls_back
      [of "\<lparr>model_file = Corrupt ''invalid load key'', scaler_file = Missing\<rparr>"
          "''invalid load key''" "[-73.9857, 40.7484, 5, 25, 65, 1013, 8, 75]"]
  by (simp add: load_scaler_def spec_fallback_policy_def)

text \<open>
  Claim C4, as stated: a missing scaler, with the classifier present, leads to the
  fallback rule policy and not to a failure. It does not hold: only a missing model
  selects the rule policy. With a stored model and no scaler file the loader hands out
  an unfitted \<^verbatim>\<open>StandardScaler()\<close>, its \<^verbatim>\<open>transform\<close> raises, and the call fails.
\<close>

theorem missing_scaler_fails:
  "fst (predict_severity \<lparr>model_file = Stored (Model (\<lambda>row. Inr 2)), scaler_file = Missing\<rparr>
          [-73.9857, 40.7484, 5, 25, 65, 1013, 8, 75]) = None"
  by (simp add: predict_severity_def load_model_def load_scaler_def StandardScaler_def
      prediction_failed_def)

text \<open>
  Claim C4, amended. On a list of eight features: if the classifier file is missing or
  malformed, \<open>predict_severity\<close> returns the class of the fallback rule policy, whatever
  the state of the scaler file; if the classifier is stored and the scaler file is
  missing or malformed, the call fails (the result is \<open>None\<close>); if both are stored, the
  result is the classification of the scaled features, or \<open>None\<close> when scaling or
  classifying raises.
\<close>

theorem predict_severity_by_artifacts:
  assumes "length features = 8"
  shows "fst (predict_severity st features) =
           (case model_file st of
              Stored m \<Rightarrow>
                (case scaler_file st of
                   Stored s \<Rightarrow>
                     (case transform s features of
                        Inl e \<Rightarrow> None
                      | Inr normalized \<Rightarrow>
                          (case predict m normalized of
                             Inl e \<Rightarrow> None
                           | Inr prediction \<Rightarrow> Some (py_int prediction)))
                 | _ \<Rightarrow> None)
            | _ \<Rightarrow> Some (spec_fallback_policy (features ! 6) (features ! 2) (features ! 7)))"
proof (cases "model_file st")
  case (Stored m)
  then show ?thesis
    by (cases "scaler_file st")
       (simp_all add: predict_severity_def load_model_def load_scaler_def StandardScaler_def
          prediction_failed_def split: sum.splits)
next
  case Missing
  then have "fst (load_model st) = None" by (simp add: load_model_def)
  with Missing assms show ?thesis by (simp add: predict_severity_without_model)
next
  case (Corrupt e)
  then have "fst (load_model st) = None" by (simp add: load_model_def)
  with Corrupt assms show ?thesis by (simp add: predict_severity_without_model)
qed

theorem predict_severity_by_artifacts_witness:
  "length [-73.9857, 40.7484, 5, 25, 65, 1013, 8, 75 :: real] = 8 \<and>
   fst (predict_severity \<lparr>model_file = Missing, scaler_file = Corrupt ''truncated''\<rparr>
          [-73.9857, 40.7484, 5, 25, 65, 1013, 8, 75]) = Some 3 \<and>
   fst (predict_severity
          \<lparr>model_file = Stored (Model (\<lambda>row. Inr 2)), scaler_file = Corrupt ''truncated''\<rparr>
          [-73.9857, 40.7484, 5, 25, 65, 1013, 8, 75]) = None"
  using predict_severity_by_artifacts
      [of "[-73.9857, 40.7484, 5, 25, 65, 1013, 8, 75]"
          "\<lparr>model_file = Missing, scaler_file = Corrupt ''truncated''\<rparr>"]
    predict_severity_by_artifacts
      [of "[-73.9857, 40.7484, 5, 25, 65, 1013, 8, 75]"
          "\<lparr>model_file = Stored (Model (\<lambda>row. Inr 2)), scaler_file = Corrupt ''truncated''\<rparr>"]
  by (simp add: spec_fallback_policy_def)

text \<open>
  Claim C8. With a stored model and a stored scaler, \<open>predict_severity\<close> returns the
  model's prediction on the scaled features coerced by \<^verbatim>\<open>int\<close>, whatever its value:
  there is no check that it lies in 0..3. (When scaling or predicting raises, the
  expression has no value and the call fails with the message of the exception.)
\<close>

theorem predict_severity_with_artifacts:
  assumes "model_file st = Stored m" and "scaler_file st = Stored s"
  shows "predict_severity st features =
           (case transform s features of
              Inl e \<Rightarrow> (None, [''Error making prediction: '' @ e])
            | Inr normalized \<Rightarrow>
                (case predict m normalized of
                   Inl e \<Rightarrow> (None, [''Error making prediction: '' @ e])
                 | Inr prediction \<Rightarrow> (Some (py_int prediction), [])))"
  using assms
  by (simp add: predict_severity_def load_model_def load_scaler_def prediction_failed_def
      split: sum.splits)

theorem predict_severity_with_artifacts_witness:
  "predict_severity
     \<lparr>model_file = Stored (Model (\<lambda>row. Inr (row ! 0 + 6))),
      scaler_file = Stored (Scaler (\<lambda>row. Inr (map (\<lambda>x. x / 10) row)))\<rparr>
     [15, 40, 5, 25, 65, 1013, 8, 75] = (Some 7, [])"
  using predict_severity_with_artifacts
      [of "\<lparr>model_file = Stored (Model (\<lambda>row. Inr (row ! 0 + 6))),
            scaler_file = Stored (Scaler (\<lambda>row. Inr (map (\<lambda>x. x / 10) row)))\<rparr>"
          "Model (\<lambda>row. Inr (row ! 0 + 6))" "Scaler (\<lambda>row. Inr (map (\<lambda>x. x / 10) row))"
          "[15, 40, 5, 25, 65, 1013, 8, 75]"]
  by (simp add: py_int_def)

section \<open>Properties of the severity lookups\<close>

text \<open>
  Claim C10. For every class outside 0..3 the label lookup returns \<^verbatim>\<open>Unknown\<close> and the
  colour lookup \<^verbatim>\<open>#CCCCCC\<close>; for 0, 1, 2 and 3 they return the configured label and
  colour.
\<close>

theorem severity_lookups:
  "(c \<notin> {0, 1, 2, 3} \<longrightarrow>
      get_severity_label c = ''Unknown'' \<and> get_severity_color c = ''#CCCCCC'') \<and>
   get_severity_label 0 = ''Minimal'' \<and> get_severity_color 0 = ''#4CAF50'' \<and>
   get_severity_label 1 = ''Minor'' \<and> get_severity_color 1 = ''#FFC107'' \<and>
   get_severity_label 2 = ''Moderate'' \<and> get_severity_color 2 = ''#FF9800'' \<and>
   get_severity_label 3 = ''Severe'' \<and> get_severity_color 3 = ''#F44336''"
  by (simp add: get_severity_label_def get_severity_color_def dict_get_def
      SEVERITY_CLASSES_def)

theorem severity_lookups_witness:
  "(7::int) \<notin> {0, 1, 2, 3} \<and>
   get_severity_label 7 = ''Unknown'' \<and> get_severity_color 7 = ''#CCCCCC''"
  using severity_lookups [of 7] by simp

section \<open>Properties of the history store\<close>

lemma save_prediction_bounded:
  assumes "length s \<le> 50"
  shows "save_prediction now d (Some s) =
           Some (drop (length s + 1 - 50) (s @ [AList.update ''timestamp'' (PStr now) d]))"
proof (cases "length s = 50")
  case True
  then have "s \<noteq> []" by auto
  with True show ?thesis
    by (simp add: save_prediction_def drop_Suc)
next
  case False
  with assms have "length s < 50" by simp
  then show ?thesis by (simp add: save_prediction_def)
qed

lemma save_all_bounded:
  assumes "length s \<le> 50"
  shows "save_all calls (Some s) =
           Some (drop (length s + length calls - 50)
                   (s @ map (\<lambda>(now, d). AList.update ''timestamp'' (PStr now) d) calls))"
  using assms
proof (induction calls arbitrary: s)
  case Nil
  then show ?case by (simp add: save_all_def)
next
  case (Cons c calls)
  obtain now d where c: "c = (now, d)" by (cases c)
  define x where "x = AList.update ''timestamp'' (PStr now) d"
  define m where "m = map (\<lambda>(now, d). AList.update ''timestamp'' (PStr now) d) calls"
  define s' where "s' = drop (length s + 1 - 50) (s @ [x])"
  have step: "save_all (c # calls) (Some s) = save_all calls (Some s')"
    using Cons.prems by (simp add: save_all_def c save_prediction_bounded s'_def x_def)
  have len: "length s' \<le> 50" using Cons.prems by (simp add: s'_def)
  have ih: "save_all calls (Some s') = Some (drop (length s' + length calls - 50) (s' @ m))"
    using Cons.IH [OF len] by (simp add: m_def)
  have goal_list: "s @ map (\<lambda>(now, d). AList.update ''timestamp'' (PStr now) d) (c # calls)
                     = s @ x # m"
    by (simp add: c x_def m_def)
  have "drop (length s' + length calls - 50) (s' @ m) =
        drop (length s + length (c # calls) - 50) (s @ x # m)"
  proof (cases "length s = 50")
    case True
    then obtain a t where s: "s = a # t" by (cases s) auto
    with True have t: "length t = 49" by simp
    have s': "s' = t @ [x]" using True s by (simp add: s'_def)
    have l: "length s' + length calls - 50 = length calls" using t by (simp add: s')
    have r: "length s + length (c # calls) - 50 = Suc (length calls)" using True by simp
    show ?thesis unfolding l r by (simp add: s s')
  next
    case False
    with Cons.prems have lt: "length s < 50" by simp
    then have s': "s' = s @ [x]" by (simp add: s'_def)
    have l: "length s' + length calls - 50 = length s + length (c # calls) - 50"
      by (simp add: s')
    show ?thesis unfolding l by (simp add: s')
  qed
  with step ih goal_list show ?case by simp
qed

text \<open>
  Claim C3. From a history of at most 50 records, \<open>save_prediction\<close> leaves a history of
  at most 50 records: the old records in their order followed by the new one (with its
  timestamp), without the oldest record when that would make 51. Saving 51 records
  into the empty history leaves exactly the last 50 of them, in the order of saving.
\<close>

theorem history_capped_fifo:
  assumes "length s \<le> 50"
  shows "(\<exists>s'. save_prediction now d (Some s) = Some s' \<and> length s' \<le> 50 \<and>
            s' = drop (length s + 1 - 50) (s @ [AList.update ''timestamp'' (PStr now) d])) \<and>
         (length calls = 51 \<longrightarrow>
            save_all calls (Some []) =
              Some (map (\<lambda>(now, d). AList.update ''timestamp'' (PStr now) d) (tl calls)))"
proof -
  have "save_all calls (Some []) =
              Some (map (\<lambda>(now, d). AList.update ''timestamp'' (PStr now) d) (tl calls))"
    if "length calls = 51"
  proof -
    have "length ([]::pydict list) + length calls - 50 = Suc 0" using that by simp
    with save_all_bounded [of "[]" calls] show ?thesis
      by (simp add: drop_Suc map_tl)
  qed
  with save_prediction_bounded [OF assms, of now d] assms show ?thesis by simp
qed

theorem history_capped_fifo_witness:
  "length [[(''hour'', PInt 1)], [(''hour'', PInt 2)]] \<le> 50 \<and>
   save_prediction ''2025-01-01 10:00:00'' [(''hour'', PInt 3)]
       (Some [[(''hour'', PInt 1)], [(''hour'', PInt 2)]]) =
     Some [[(''hour'', PInt 1)], [(''hour'', PInt 2)],
           [(''hour'', PInt 3), (''timestamp'', PStr ''2025-01-01 10:00:00'')]] \<and>
   length (map (\<lambda>i. (''t'', [(''hour'', PInt (int i))])) [0..<51]) = 51 \<and>
   save_all (map (\<lambda>i. (''t'', [(''hour'', PInt (int i))])) [0..<51]) (Some []) =
     Some (map (\<lambda>i. [(''hour'', PInt (int i)), (''timestamp'', PStr ''t'')]) [1..<51])"
proof -
  have tl: "tl (map (\<lambda>i. (''t'', [(''hour'', PInt (int i))])) [0..<51]) =
            map (\<lambda>i. (''t'', [(''hour'', PInt (int i))])) [1..<51]"
    by (simp add: upt_conv_Cons flip: map_tl)
  show ?thesis
    using history_capped_fifo [of "[[(''hour'', PInt 1)], [(''hour'', PInt 2)]]"
        "''2025-01-01 10:00:00''" "[(''hour'', PInt 3)]"
        "map (\<lambda>i. (''t'', [(''hour'', PInt (int i))])) [0..<51]"]
    unfolding tl
    by simp
qed

text \<open>
  Claim C5, as stated: on an empty history the snapshot is an empty sequence of records,
  a value other than the one that stands for no result. It does not hold:
  \<open>get_predictions_dataframe\<close> returns \<open>None\<close> for the empty history, not a data frame
  with no rows.
\<close>

theorem empty_history_gives_no_dataframe:
  "fst (get_predictions_dataframe (Some [])) = Inr None \<and>
   fst (get_predictions_dataframe (Some [])) \<noteq> Inr (Some (DataFrame []))"
  by (simp add: get_predictions_dataframe_def)

text \<open>
  Claim C5, amended. \<open>get_predictions_dataframe\<close> never changes the session state; on
  an empty history it returns \<open>None\<close> (no data frame), and on a history with records it
  returns the data frame whose rows are these records in their order.
\<close>

theorem get_predictions_dataframe_snapshot:
  "snd (get_predictions_dataframe state) = state \<and>
   fst (get_predictions_dataframe (Some [])) = Inr None \<and>
   (ps \<noteq> [] \<longrightarrow>
      fst (get_predictions_dataframe (Some ps)) = Inr (Some (DataFrame ps)) \<and>
      rows (DataFrame ps) = ps)"
  by (simp add: get_predictions_dataframe_def DataFrame_def split: option.splits)

theorem get_predictions_dataframe_snapshot_witness:
  "[[(''hour'', PInt 8)]] \<noteq> [] \<and>
   get_predictions_dataframe (Some [[(''hour'', PInt 8)]]) =
     (Inr (Some \<lparr>columns = [''hour''], rows = [[(''hour'', PInt 8)]]\<rparr>),
      Some [[(''hour'', PInt 8)]])"
  using get_predictions_dataframe_snapshot
      [of "Some [[(''hour'', PInt 8)]]" "[[(''hour'', PInt 8)]]"]
  by (simp add: DataFrame_def add_keys_def prod_eq_iff)

section \<open>Properties of the feature correlations\<close>

lemma mset_insert_desc: "mset (insert_desc x xs) = add_mset x (mset xs)"
  by (induction xs) simp_all

lemma mset_sort_values: "mset (sort_values xs) = mset xs"
  unfolding sort_values_def by (induction xs) (simp_all add: mset_insert_desc)

lemma before_total: "before a b \<or> before b a"
  by (cases a; cases b) auto

lemma before_trans: "before a b \<Longrightarrow> before b c \<Longrightarrow> before a c"
  by (cases a; cases b; cases c) auto

lemma set_insert_desc: "set (insert_desc x xs) = insert x (set xs)"
  by (induction xs) auto

lemma sorted_insert_desc:
  assumes "sorted_wrt (\<lambda>x y. before (snd x) (snd y)) xs"
  shows "sorted_wrt (\<lambda>x y. before (snd x) (snd y)) (insert_desc x xs)"
  using assms
proof (induction xs)
  case Nil
  then show ?case by simp
next
  case (Cons y ys)
  show ?case
  proof (cases "before (snd x) (snd y)")
    case True
    with Cons.prems show ?thesis by (auto intro: before_trans)
  next
    case False
    with before_total [of "snd x" "snd y"] have "before (snd y) (snd x)" by simp
    with False Cons show ?thesis by (auto simp: set_insert_desc)
  qed
qed

lemma sorted_sort_values: "sorted_wrt (\<lambda>x y. before (snd x) (snd y)) (sort_values xs)"
  unfolding sort_values_def by (induction xs) (simp_all add: sorted_insert_desc)

lemma corr_loop_all_columns:
  assumes "''severity_class'' \<in> set (columns d)" and "set ps \<subseteq> set (columns d)"
  shows "corr_loop corr d ps =
           Inr (map (\<lambda>p. (p, map_option abs
                  (corr (map (\<lambda>r. dict_get r p PNaN) (rows d))
                        (map (\<lambda>r. dict_get r ''severity_class'' PNaN) (rows d))))) ps)"
  using assms by (induction ps) (simp_all add: column_def)

lemma keys_of_saved_record:
  "map fst (AList.update ''timestamp'' (PStr now)
     (prediction_data longitude latitude distance temperature humidity pressure hour
        time_duration severity_class)) =
   [''longitude'', ''latitude'', ''distance'', ''temperature'', ''humidity'', ''pressure'',
    ''hour'', ''time_duration'', ''severity_class'', ''severity_label'', ''timestamp'']"
  by (simp add: prediction_data_def)

lemma add_keys_known:
  assumes "set (map fst p) \<subseteq> set cols"
  shows "add_keys cols p = cols"
proof -
  from assms have "filter (\<lambda>k. k \<notin> set cols) (map fst p) = []"
    by (auto simp: filter_empty_conv)
  then show ?thesis by (simp add: add_keys_def)
qed

lemma foldl_add_keys_known:
  assumes "\<forall>p \<in> set ps. set (map fst p) \<subseteq> set cols"
  shows "foldl add_keys cols ps = cols"
  using assms by (induction ps) (simp_all add: add_keys_known)

lemma columns_DataFrame:
  assumes "ps \<noteq> []" and "\<forall>p \<in> set ps. map fst p = ks"
  shows "columns (DataFrame ps) = ks"
proof -
  from assms(1) obtain p rest where ps: "ps = p # rest" by (cases ps) auto
  with assms(2) have p: "map fst p = ks" and rest: "\<forall>q \<in> set rest. map fst q = ks"
    by simp_all
  have "add_keys [] p = ks" using p by (simp add: add_keys_def)
  moreover have "foldl add_keys ks rest = ks"
    using rest by (intro foldl_add_keys_known) simp
  ultimately show ?thesis by (simp add: DataFrame_def ps)
qed

text \<open>
  Claim C6. On a data frame of fewer than five records \<open>plot_parameter_importance\<close>
  returns \<open>None\<close> (no figure, and no correlations of value zero). On five or more
  records that carry the eight features and \<^verbatim>\<open>severity_class\<close> it returns, for each of
  the eight features exactly once, the pair of its name and the absolute value of its
  correlation with \<^verbatim>\<open>severity_class\<close>, ordered by descending absolute correlation
  (\<open>before\<close>: a larger value comes first, an undefined correlation comes last).
\<close>

theorem parameter_importance_threshold_and_order:
  "(length (rows d) < 5 \<longrightarrow> plot_parameter_importance corr (Some d) = Inr None) \<and>
   (5 \<le> length (rows d) \<and> set params \<subseteq> set (columns d) \<and>
    ''severity_class'' \<in> set (columns d) \<longrightarrow>
      (\<exists>ps. plot_parameter_importance corr (Some d) = Inr (Some ps) \<and>
            mset ps = mset (map (\<lambda>p. (p, map_option abs
                        (corr (map (\<lambda>r. dict_get r p PNaN) (rows d))
                              (map (\<lambda>r. dict_get r ''severity_class'' PNaN) (rows d)))))
                      params) \<and>
            sorted_wrt (\<lambda>x y. before (snd x) (snd y)) ps))"
proof (intro conjI impI)
  assume "length (rows d) < 5"
  then show "plot_parameter_importance corr (Some d) = Inr None"
    by (simp add: plot_parameter_importance_def)
next
  assume h: "5 \<le> length (rows d) \<and> set params \<subseteq> set (columns d) \<and>
    ''severity_class'' \<in> set (columns d)"
  let ?data = "map (\<lambda>p. (p, map_option abs
                        (corr (map (\<lambda>r. dict_get r p PNaN) (rows d))
                              (map (\<lambda>r. dict_get r ''severity_class'' PNaN) (rows d)))))
                      params"
  from h have loop: "corr_loop corr d params = Inr ?data"
    by (simp add: corr_loop_all_columns)
  have ne: "?data \<noteq> []" by (simp add: params_def)
  from h have "\<not> df_empty d" by (auto simp: df_empty_def)
  with h loop ne have "plot_parameter_importance corr (Some d) = Inr (Some (sort_values ?data))"
    by (simp add: plot_parameter_importance_def)
  then show "\<exists>ps. plot_parameter_importance corr (Some d) = Inr (Some ps) \<and>
            mset ps = mset ?data \<and> sorted_wrt (\<lambda>x y. before (snd x) (snd y)) ps"
    by (simp add: mset_sort_values sorted_sort_values)
qed

theorem parameter_importance_threshold_and_order_witness:
  "plot_parameter_importance
      (\<lambda>xs ys. case xs of PFloat x # _ \<Rightarrow> Some (x / 2000) | _ \<Rightarrow> None)
      (Some (DataFrame (map (\<lambda>i. AList.update ''timestamp'' (PStr ''2025-01-01 10:00:00'')
                (prediction_data (-73) 40 5 25 65 1013 8 75 (int i))) [0..<4]))) = Inr None \<and>
   (\<exists>ps. plot_parameter_importance
      (\<lambda>xs ys. case xs of PFloat x # _ \<Rightarrow> Some (x / 2000) | _ \<Rightarrow> None)
      (Some (DataFrame (map (\<lambda>i. AList.update ''timestamp'' (PStr ''2025-01-01 10:00:00'')
                (prediction_data (-73) 40 5 25 65 1013 8 75 (int i))) [0..<5]))) = Inr (Some ps) \<and>
      sorted_wrt (\<lambda>x y. before (snd x) (snd y)) ps)"
proof -
  let ?rec = "\<lambda>i. AList.update ''timestamp'' (PStr ''2025-01-01 10:00:00'')
                (prediction_data (-73) 40 5 25 65 1013 8 75 (int i))"
  let ?corr = "\<lambda>xs ys. case xs of PFloat x # _ \<Rightarrow> Some (x / 2000) | _ \<Rightarrow> None"
  have cols: "columns (DataFrame (map ?rec [0..<5])) =
    [''longitude'', ''latitude'', ''distance'', ''temperature'', ''humidity'', ''pressure'',
    ''hour'', ''time_duration'', ''severity_class'', ''severity_label'', ''timestamp'']"
    by (rule columns_DataFrame) (simp_all add: keys_of_saved_record)
  have h4: "length (rows (DataFrame (map ?rec [0..<4]))) < 5"
    by (simp add: DataFrame_def)
  have h5: "5 \<le> length (rows (DataFrame (map ?rec [0..<5]))) \<and>
      set params \<subseteq> set (columns (DataFrame (map ?rec [0..<5]))) \<and>
      ''severity_class'' \<in> set (columns (DataFrame (map ?rec [0..<5])))"
    unfolding cols by (simp add: DataFrame_def params_def)
  from parameter_importance_threshold_and_order [of "DataFrame (map ?rec [0..<4])" ?corr] h4
       parameter_importance_threshold_and_order [of "DataFrame (map ?rec [0..<5])" ?corr] h5
  show ?thesis by blast
qed

lemma parameter_importance_example:
  "plot_parameter_importance
      (\<lambda>xs ys. case xs of PFloat x # _ \<Rightarrow> Some (x / 2000) | _ \<Rightarrow> None)
      (Some (DataFrame (map (\<lambda>i. AList.update ''timestamp'' (PStr ''2025-01-01 10:00:00'')
                (prediction_data (-73) 40 5 25 65 1013 8 75 (int i))) [0..<5]))) =
   Inr (Some [(''pressure'', Some (1013 / 2000)), (''time_duration'', Some (75 / 2000)),
      (''longitude'', Some (73 / 2000)), (''humidity'', Some (65 / 2000)),
      (''latitude'', Some (40 / 2000)), (''temperature'', Some (25 / 2000)),
      (''distance'', Some (5 / 2000)), (''hour'', None)])"
  by (simp add: plot_parameter_importance_def DataFrame_def add_keys_def prediction_data_def
     df_empty_def params_def column_def sort_values_def dict_get_def upt_conv_Cons)

section \<open>Properties of the CSV export\<close>

lemma to_csv_lines_rows:
  "to_csv_lines fmt df =
     join '','' (map csv_field (columns df)) #
     map (\<lambda>r. join '','' (map (\<lambda>c. cell fmt (dict_get r c PNaN)) (columns df))) (rows df)"
  by (simp add: to_csv_lines_def)

lemma header_of_saved_records:
  "join '','' (map csv_field
     [''longitude'', ''latitude'', ''distance'', ''temperature'', ''humidity'', ''pressure'',
      ''hour'', ''time_duration'', ''severity_class'', ''severity_label'', ''timestamp'']) =
   ''longitude,latitude,distance,temperature,humidity,pressure,hour,time_duration,severity_class,severity_label,timestamp''"
  by (simp add: csv_field_def)

text \<open>
  Claim C7, as stated: for every number N of records, also N = 0, the export is a CSV
  text of N + 1 lines. It does not hold for N = 0: the empty history gives no data
  frame, and \<open>generate_download_link\<close> returns \<open>None\<close> both for no data frame and for an
  empty one, so there is no header line.
\<close>

theorem csv_export_of_empty_history:
  "fst (get_predictions_dataframe (Some [])) = Inr None \<and>
   generate_download_link (\<lambda>s. s) (\<lambda>v. []) None
     ''traffic_severity_predictions.csv'' ''Download'' = None \<and>
   generate_download_link (\<lambda>s. s) (\<lambda>v. []) (Some (DataFrame []))
     ''traffic_severity_predictions.csv'' ''Download'' = None"
  by (simp add: get_predictions_dataframe_def generate_download_link_def df_empty_def
      DataFrame_def)

text \<open>
  Claim C7, amended. For no data frame and for an empty one
  \<open>generate_download_link\<close> returns \<open>None\<close>. For a history of N \<ge> 1 records with the
  eleven keys of a saved record, the link carries the CSV text of N + 1 rows, each ended
  by a line feed: the header with the field names longitude, latitude, distance,
  temperature, humidity, pressure, hour, \<^verbatim>\<open>time_duration\<close>, \<^verbatim>\<open>severity_class\<close>,
  \<^verbatim>\<open>severity_label\<close>, timestamp in this order, then one row per record in the order
  of the history.
\<close>

theorem csv_export_rows:
  "generate_download_link b64 fmt None filename button_text = None \<and>
   generate_download_link b64 fmt (Some (DataFrame [])) filename button_text = None \<and>
   (ps \<noteq> [] \<and>
    (\<forall>p \<in> set ps. map fst p =
       [''longitude'', ''latitude'', ''distance'', ''temperature'', ''humidity'', ''pressure'',
        ''hour'', ''time_duration'', ''severity_class'', ''severity_label'', ''timestamp'']) \<longrightarrow>
    fst (get_predictions_dataframe (Some ps)) = Inr (Some (DataFrame ps)) \<and>
    (\<exists>pre post. generate_download_link b64 fmt (Some (DataFrame ps)) filename button_text =
        Some (pre @ b64 (to_csv fmt (DataFrame ps)) @ post)) \<and>
    to_csv fmt (DataFrame ps) =
        concat (map (\<lambda>l. l @ [CHR 0x0A]) (to_csv_lines fmt (DataFrame ps))) \<and>
    length (to_csv_lines fmt (DataFrame ps)) = length ps + 1 \<and>
    to_csv_lines fmt (DataFrame ps) =
      ''longitude,latitude,distance,temperature,humidity,pressure,hour,time_duration,severity_class,severity_label,timestamp'' #
      map (\<lambda>p. join '','' (map (\<lambda>c. cell fmt (dict_get p c PNaN))
         [''longitude'', ''latitude'', ''distance'', ''temperature'', ''humidity'', ''pressure'',
          ''hour'', ''time_duration'', ''severity_class'', ''severity_label'', ''timestamp'']))
        ps)"
proof (intro conjI impI)
  show "generate_download_link b64 fmt None filename button_text = None"
    by (simp add: generate_download_link_def)
  show "generate_download_link b64 fmt (Some (DataFrame [])) filename button_text = None"
    by (simp add: generate_download_link_def df_empty_def DataFrame_def)
next
  let ?ks = "[''longitude'', ''latitude'', ''distance'', ''temperature'', ''humidity'',
     ''pressure'', ''hour'', ''time_duration'', ''severity_class'', ''severity_label'',
     ''timestamp'']"
  assume h: "ps \<noteq> [] \<and> (\<forall>p \<in> set ps. map fst p = ?ks)"
  then have cols: "columns (DataFrame ps) = ?ks"
    by (intro columns_DataFrame) simp_all
  have rws: "rows (DataFrame ps) = ps" by (simp add: DataFrame_def)
  from h show "fst (get_predictions_dataframe (Some ps)) = Inr (Some (DataFrame ps))"
    by (simp add: get_predictions_dataframe_def)
  from h cols rws have ne: "\<not> df_empty (DataFrame ps)"
    by (simp add: df_empty_def)
  show "\<exists>pre post. generate_download_link b64 fmt (Some (DataFrame ps)) filename button_text =
        Some (pre @ b64 (to_csv fmt (DataFrame ps)) @ post)"
  proof (intro exI)
    show "generate_download_link b64 fmt (Some (DataFrame ps)) filename button_text =
        Some ((''<a href='' @ [CHR 0x22] @ ''data:file/csv;base64,'') @
              b64 (to_csv fmt (DataFrame ps)) @
              ([CHR 0x22] @ '' download='' @ [CHR 0x22] @ filename @ [CHR 0x22] @
               '' class='' @ [CHR 0x22] @ ''download-button'' @ [CHR 0x22] @ ''>'' @
               button_text @ ''</a>''))"
      using ne by (simp add: generate_download_link_def)
  qed
  show "to_csv fmt (DataFrame ps) =
        concat (map (\<lambda>l. l @ [CHR 0x0A]) (to_csv_lines fmt (DataFrame ps)))"
    by (simp add: to_csv_def)
  show "length (to_csv_lines fmt (DataFrame ps)) = length ps + 1"
    by (simp add: to_csv_lines_rows rws)
  show "to_csv_lines fmt (DataFrame ps) =
      ''longitude,latitude,distance,temperature,humidity,pressure,hour,time_duration,severity_class,severity_label,timestamp'' #
      map (\<lambda>p. join '','' (map (\<lambda>c. cell fmt (dict_get p c PNaN)) ?ks)) ps"
    unfolding to_csv_lines_rows cols rws header_of_saved_records ..
qed

theorem csv_export_rows_witness:
  "to_csv_lines (\<lambda>v. case v of PInt i \<Rightarrow> (if i = 8 then ''8'' else if i = 7 then ''7'' else ''3'') | _ \<Rightarrow> ''5.0'')
     (DataFrame
        [AList.update ''timestamp'' (PStr ''2025-01-01 10:00:00'')
           (prediction_data 5 5 5 5 5 5 8 5 3),
         AList.update ''timestamp'' (PStr ''2025-01-01 10:00:07'')
           (prediction_data 5 5 5 5 5 5 8 5 7)]) =
   [''longitude,latitude,distance,temperature,humidity,pressure,hour,time_duration,severity_class,severity_label,timestamp'',
    ''5.0,5.0,5.0,5.0,5.0,5.0,8,5.0,3,Severe,2025-01-01 10:00:00'',
    ''5.0,5.0,5.0,5.0,5.0,5.0,8,5.0,7,Unknown,2025-01-01 10:00:07'']"
  using csv_export_rows [of "\<lambda>s. s"
      "\<lambda>v. case v of PInt i \<Rightarrow> (if i = 8 then ''8'' else if i = 7 then ''7'' else ''3'') | _ \<Rightarrow> ''5.0''"
      "''traffic_severity_predictions.csv''" "''Download''"
      "[AList.update ''timestamp'' (PStr ''2025-01-01 10:00:00'')
           (prediction_data 5 5 5 5 5 5 8 5 3),
         AList.update ''timestamp'' (PStr ''2025-01-01 10:00:07'')
           (prediction_data 5 5 5 5 5 5 8 5 7)]"]
  by (simp add: keys_of_saved_record prediction_data_def dict_get_def cell_def csv_field_def
      severity_info_def SEVERITY_CLASSES_def)

end
